theory Spec2Isabelle
  imports Main "HOL-Library.Product_Lexorder" "HOL-Library.Multiset"
begin

section \<open>The Twitter '95 database API (backend/database/api.py)\<close>

text \<open>
  The module is a FastAPI application whose routes each open one SQLAlchemy session on a
  PostgreSQL database, run one or two queries and return the rows. The embedding keeps the
  routes as functions from the database (and the request parameters) to a result; a
  \<^verbatim>\<open>raise\<close> is the left summand of the result, and a route that writes returns the
  database it leaves behind.
\<close>

subsection \<open>Tables\<close>

text \<open>
  Modelled from the spec: the table declarations (\<^verbatim>\<open>common.models\<close>) are not part of the
  source. Section 3 of the specification gives the columns: a user has a unique identifier
  and a unique user name; a bio belongs to one user; a tweet has a unique identifier, an
  author, a body and a nullable fake time; a follower edge is a pair (follower, followed).
  A \<^verbatim>\<open>datetime\<close> is a point on the time line, here an integer (microseconds, as PostgreSQL
  stores a timestamp). Identifiers are generated by the database from a sequence per table.
\<close>

type_synonym datetime = int

record user =
  user_id :: int
  user_name :: string
  display_name :: string

record bio =
  bio_user_id :: int
  content :: "string option"

record tweet =
  tweet_id :: int
  author_id :: int
  body :: string
  fake_time :: "datetime option"

record database =
  users :: "user list"
  bios :: "bio list"
  tweets :: "tweet list"
  followers_association :: "(int \<times> int) list"
  user_id_seq :: int
  tweet_id_seq :: int

text \<open>The creation payloads (\<^verbatim>\<open>UserCreate\<close>, \<^verbatim>\<open>TweetCreate\<close>): a row without its identifier.\<close>

record user_create =
  new_user_name :: string
  new_display_name :: string

record tweet_create =
  new_author_id :: int
  new_body :: string
  new_fake_time :: "datetime option"

text \<open>
  Modelled from the spec: the constraints of the schema (section 3). Primary keys, user
  names and follower pairs are unique, a tweet's author and both ends of a follower edge
  are users, and a sequence is ahead of every identifier it has handed out.
\<close>

definition unique_keys :: "database \<Rightarrow> bool" where
  "unique_keys db \<longleftrightarrow>
     distinct (map user_id (users db)) \<and> distinct (map user_name (users db)) \<and>
     distinct (map tweet_id (tweets db)) \<and> distinct (followers_association db)"

definition foreign_keys :: "database \<Rightarrow> bool" where
  "foreign_keys db \<longleftrightarrow>
     (\<forall>t \<in> set (tweets db). author_id t \<in> user_id ` set (users db)) \<and>
     (\<forall>e \<in> set (followers_association db).
        fst e \<in> user_id ` set (users db) \<and> snd e \<in> user_id ` set (users db))"

definition sequences_ahead :: "database \<Rightarrow> bool" where
  "sequences_ahead db \<longleftrightarrow>
     (\<forall>u \<in> set (users db). user_id u < user_id_seq db) \<and>
     (\<forall>t \<in> set (tweets db). tweet_id t < tweet_id_seq db)"

subsection \<open>Errors and HTTP status\<close>

datatype error =
    HTTPException int string
  | AttributeError string
  | MultipleResultsFound
  | InvalidRequestError
  | IntegrityError
  | DBAPIError

text \<open>
  FastAPI answers a raised \<^verbatim>\<open>HTTPException\<close> with its status code, any other exception with
  500 and a returned value with 200.
\<close>

fun status_code :: "error + 'a \<Rightarrow> int" where
  "status_code (Inl (HTTPException code detail)) = code"
| "status_code (Inl e) = 500"
| "status_code (Inr v) = 200"

text \<open>Python's \<^verbatim>\<open>str\<close> of an integer, as the f-strings of the error details use it.\<close>

fun str_nat :: "nat \<Rightarrow> string" where
  "str_nat n =
     (if n < 10 then [''0123456789'' ! n]
      else str_nat (n div 10) @ [''0123456789'' ! (n mod 10)])"

declare str_nat.simps [simp del]

definition str_int :: "int \<Rightarrow> string" where
  "str_int i = (if i < 0 then CHR ''-'' # str_nat (nat (- i)) else str_nat (nat i))"

subsection \<open>Query building blocks\<close>

text \<open>
  \<^verbatim>\<open>Result.scalar_one_or_none()\<close>: the only row, \<^verbatim>\<open>None\<close> when there is none, and
  \<^verbatim>\<open>MultipleResultsFound\<close> when there are several.
\<close>

fun scalar_one_or_none :: "'a list \<Rightarrow> error + 'a option" where
  "scalar_one_or_none [] = Inr None"
| "scalar_one_or_none [x] = Inr (Some x)"
| "scalar_one_or_none (x # y # zs) = Inl MultipleResultsFound"

text \<open>\<^verbatim>\<open>select(models.sql.User).filter_by(user_id=user_id)\<close>\<close>

definition select_user :: "database \<Rightarrow> int \<Rightarrow> user list" where
  "select_user db uid = filter (\<lambda>u. user_id u = uid) (users db)"

text \<open>
  \<^verbatim>\<open>order_by(sort(Tweet.fake_time), sort(Tweet.tweet_id))\<close> with \<^verbatim>\<open>sort\<close> either \<^verbatim>\<open>asc\<close> or
  \<^verbatim>\<open>desc\<close>. PostgreSQL orders a null as larger than every value: last ascending, first
  descending. The key of a row puts the null flag before the time.
\<close>

definition order_key :: "tweet \<Rightarrow> bool \<times> datetime \<times> int" where
  "order_key t =
     (fake_time t = None, (case fake_time t of None \<Rightarrow> 0 | Some ft \<Rightarrow> ft), tweet_id t)"

definition order_by :: "bool \<Rightarrow> tweet list \<Rightarrow> tweet list" where
  "order_by ascending rows =
     (if ascending then sort_key order_key rows else rev (sort_key order_key rows))"

text \<open>
  \<^verbatim>\<open>.limit(limit)\<close>: the first \<^verbatim>\<open>limit\<close> rows. The parameter is a Python \<^verbatim>\<open>int\<close>, unbounded,
  that the route does not check. It reaches the database as a 64-bit integer: the driver
  raises for a value above \<open>2\<^sup>6\<^sup>3 - 1\<close> (asyncpg: value out of int64 range), and PostgreSQL
  rejects a negative \<^verbatim>\<open>LIMIT\<close>. Both happen whatever the rows are.
\<close>

definition valid_limit :: "int \<Rightarrow> bool" where
  "valid_limit n \<longleftrightarrow> 0 \<le> n \<and> n \<le> 9223372036854775807"

definition limit_clause :: "int \<Rightarrow> 'a list \<Rightarrow> error + 'a list" where
  "limit_clause n rows =
     (if n < 0 \<or> 9223372036854775807 < n then Inl DBAPIError else Inr (take (nat n) rows))"

text \<open>
  The time filter of the timeline and of the posts:
  \<^verbatim>\<open>or_(Tweet.fake_time <= fake_time, Tweet.fake_time == None)\<close>. In SQL the comparison with a
  null is not true, and \<^verbatim>\<open>== None\<close> is \<^verbatim>\<open>IS NULL\<close>.
\<close>

definition visible_at :: "datetime \<Rightarrow> tweet \<Rightarrow> bool" where
  "visible_at cutoff t \<longleftrightarrow>
     (case fake_time t of None \<Rightarrow> False | Some ft \<Rightarrow> ft \<le> cutoff) \<or> fake_time t = None"

subsection \<open>The read routes\<close>

text \<open>
  \<^verbatim>\<open>GET /timeline/\<close>. The subquery \<^verbatim>\<open>followed_users\<close> selects the \<^verbatim>\<open>followed_id\<close> of the
  edges whose \<^verbatim>\<open>follower_id\<close> is the user; the rows are the tweets whose author is among
  them and that pass the time filter.
\<close>

definition followed_users :: "database \<Rightarrow> int \<Rightarrow> int list" where
  "followed_users db uid = map snd (filter (\<lambda>e. fst e = uid) (followers_association db))"

definition timeline_where :: "database \<Rightarrow> datetime \<Rightarrow> int \<Rightarrow> tweet list" where
  "timeline_where db cutoff uid =
     filter (visible_at cutoff)
       (filter (\<lambda>t. author_id t \<in> set (followed_users db uid)) (tweets db))"

definition read_timeline ::
  "database \<Rightarrow> datetime \<Rightarrow> int \<Rightarrow> int \<Rightarrow> bool \<Rightarrow> error + tweet list" where
  "read_timeline db cutoff uid limit ascending =
     limit_clause limit (order_by ascending (timeline_where db cutoff uid))"

text \<open>\<^verbatim>\<open>GET /posts/\<close>: the time filter and \<^verbatim>\<open>Tweet.author_id == user_id\<close>.\<close>

definition posts_where :: "database \<Rightarrow> datetime \<Rightarrow> int \<Rightarrow> tweet list" where
  "posts_where db cutoff uid =
     filter (\<lambda>t. visible_at cutoff t \<and> author_id t = uid) (tweets db)"

definition read_posts ::
  "database \<Rightarrow> datetime \<Rightarrow> int \<Rightarrow> int \<Rightarrow> bool \<Rightarrow> error + tweet list" where
  "read_posts db cutoff uid limit ascending =
     limit_clause limit (order_by ascending (posts_where db cutoff uid))"

text \<open>\<^verbatim>\<open>GET /tweets/\<close>: every tweet, ordered and limited.\<close>

definition read_tweets :: "database \<Rightarrow> int \<Rightarrow> bool \<Rightarrow> error + tweet list" where
  "read_tweets db limit ascending = limit_clause limit (order_by ascending (tweets db))"

text \<open>\<^verbatim>\<open>GET /users/{user_id}/\<close>\<close>

definition read_user :: "database \<Rightarrow> int \<Rightarrow> error + user" where
  "read_user db uid =
     (case scalar_one_or_none (select_user db uid) of
        Inl e \<Rightarrow> Inl e
      | Inr None \<Rightarrow> Inl (HTTPException 404 (''User '' @ str_int uid @ '' not found''))
      | Inr (Some user) \<Rightarrow> Inr user)"

text \<open>
  \<^verbatim>\<open>GET /users/{user_id}/tweets/\<close>: the existence check, then the user's tweets with
  \<^verbatim>\<open>desc\<close> on both columns; the route has no time parameter and no direction.
\<close>

definition read_user_tweets :: "database \<Rightarrow> int \<Rightarrow> int \<Rightarrow> error + tweet list" where
  "read_user_tweets db uid limit =
     (case scalar_one_or_none (select_user db uid) of
        Inl e \<Rightarrow> Inl e
      | Inr None \<Rightarrow> Inl (HTTPException 404 (''User '' @ str_int uid @ '' not found''))
      | Inr (Some user) \<Rightarrow>
          limit_clause limit (order_by False (filter (\<lambda>t. author_id t = uid) (tweets db))))"

text \<open>
  \<^verbatim>\<open>GET /profile/{user_id}/\<close>. When there is no user the route evaluates
  \<^verbatim>\<open>return FastAPI.HTTPException(status_code=404, detail="User not found")\<close>: an attribute
  of the application class \<^verbatim>\<open>FastAPI\<close> (the other routes name the module \<^verbatim>\<open>fastapi\<close>), and a
  \<^verbatim>\<open>return\<close> where the other routes \<^verbatim>\<open>raise\<close>. The class is not part of the source, so what
  the attribute resolves to is a parameter: \<^verbatim>\<open>None\<close> when the class has no such attribute
  (the lookup raises \<^verbatim>\<open>AttributeError\<close>), or the constructor it names. With a constructor
  the route returns the exception object as its value.
\<close>

datatype profile = Profile user bio | Returned_exception error

definition read_profile ::
  "(int \<Rightarrow> string \<Rightarrow> error) option \<Rightarrow> database \<Rightarrow> int \<Rightarrow> error + profile" where
  "read_profile FastAPI_HTTPException db uid =
     (case scalar_one_or_none (select_user db uid) of
        Inl e \<Rightarrow> Inl e
      | Inr None \<Rightarrow>
          (case FastAPI_HTTPException of
             None \<Rightarrow> Inl (AttributeError ''HTTPException'')
           | Some new \<Rightarrow> Inr (Returned_exception (new 404 ''User not found'')))
      | Inr (Some user) \<Rightarrow>
          (case find (\<lambda>b. bio_user_id b = user_id user) (bios db) of
             None \<Rightarrow> Inr (Profile user \<lparr>bio_user_id = uid, content = None\<rparr>)
           | Some bio \<Rightarrow> Inr (Profile user bio)))"

text \<open>
  The response of the profile route: a value that is not a profile fails the validation
  against \<^verbatim>\<open>response_model=ProfileRead\<close>, which FastAPI answers with 500.
\<close>

fun profile_status_code :: "error + profile \<Rightarrow> int" where
  "profile_status_code (Inr (Returned_exception e)) = 500"
| "profile_status_code r = status_code r"

subsection \<open>The creation routes\<close>

text \<open>
  \<^verbatim>\<open>POST /users/\<close>: \<^verbatim>\<open>db.add(user)\<close>, \<^verbatim>\<open>db.commit()\<close>, \<^verbatim>\<open>db.refresh(user)\<close>. The commit inserts
  the row with the next value of the sequence as its identifier; a sequence is not rolled
  back. An insert that breaks a constraint raises \<^verbatim>\<open>IntegrityError\<close> and leaves the tables
  as they were. \<^verbatim>\<open>refresh\<close> reads the row back by its primary key and raises
  \<^verbatim>\<open>InvalidRequestError\<close> when it does not find exactly that row.
\<close>

definition refresh_user :: "database \<Rightarrow> user \<Rightarrow> error + user" where
  "refresh_user db user =
     (case select_user db (user_id user) of [row] \<Rightarrow> Inr row | _ \<Rightarrow> Inl InvalidRequestError)"

definition create_user :: "user_create \<Rightarrow> database \<Rightarrow> (error + user) \<times> database" where
  "create_user payload db =
     (let user = \<lparr>user_id = user_id_seq db, user_name = new_user_name payload,
                  display_name = new_display_name payload\<rparr>;
          db1 = db\<lparr>user_id_seq := user_id_seq db + 1\<rparr>
      in if user_id user \<in> user_id ` set (users db) \<or>
            user_name user \<in> user_name ` set (users db)
         then (Inl IntegrityError, db1)
         else (let db2 = db1\<lparr>users := users db1 @ [user]\<rparr>
               in (refresh_user db2 user, db2)))"

text \<open>\<^verbatim>\<open>POST /tweet/\<close>: the same three calls; the author of a tweet has to be a user.\<close>

definition refresh_tweet :: "database \<Rightarrow> tweet \<Rightarrow> error + tweet" where
  "refresh_tweet db tweet =
     (case filter (\<lambda>t. tweet_id t = tweet_id tweet) (tweets db) of
        [row] \<Rightarrow> Inr row
      | _ \<Rightarrow> Inl InvalidRequestError)"

definition create_tweet :: "tweet_create \<Rightarrow> database \<Rightarrow> (error + tweet) \<times> database" where
  "create_tweet payload db =
     (let tweet = \<lparr>tweet_id = tweet_id_seq db, author_id = new_author_id payload,
                   body = new_body payload, fake_time = new_fake_time payload\<rparr>;
          db1 = db\<lparr>tweet_id_seq := tweet_id_seq db + 1\<rparr>
      in if tweet_id tweet \<in> tweet_id ` set (tweets db) \<or>
            author_id tweet \<notin> user_id ` set (users db)
         then (Inl IntegrityError, db1)
         else (let db2 = db1\<lparr>tweets := tweets db1 @ [tweet]\<rparr>
               in (refresh_tweet db2 tweet, db2)))"

subsection \<open>User deletion\<close>

text \<open>
  \<^verbatim>\<open>DELETE /users/{user_id}/\<close> runs inside \<^verbatim>\<open>async with new_session() as db\<close>. A session
  works on a transaction of its own: its statements change the working copy, \<^verbatim>\<open>commit\<close>
  makes the working copy the committed database, and leaving the \<^verbatim>\<open>with\<close> block closes the
  session, which drops whatever was not committed. Other sessions (the isolation level is
  READ COMMITTED) see the committed database only.

  Every round trip to the database can fail (a lost connection, a constraint). The
  parameter \<open>fails\<close> says which ones do, by their position in the route: 0 the
  \<^verbatim>\<open>select\<close>, 1 to 3 the three \<^verbatim>\<open>delete\<close> statements, 4 \<^verbatim>\<open>db.delete(user)\<close> and its flush,
  5 the commit. A failed round trip raises and the \<^verbatim>\<open>with\<close> block is left.
\<close>

record session =
  committed :: database
  working :: database

definition new_session :: "database \<Rightarrow> session" where
  "new_session db = \<lparr>committed = db, working = db\<rparr>"

definition execute ::
  "(nat \<Rightarrow> bool) \<Rightarrow> nat \<Rightarrow> (database \<Rightarrow> database) \<Rightarrow> session \<Rightarrow> error + session" where
  "execute fails k statement s =
     (if fails k then Inl DBAPIError else Inr (s\<lparr>working := statement (working s)\<rparr>))"

definition commit :: "(nat \<Rightarrow> bool) \<Rightarrow> nat \<Rightarrow> session \<Rightarrow> error + session" where
  "commit fails k s = (if fails k then Inl DBAPIError else Inr (s\<lparr>committed := working s\<rparr>))"

definition session_exit :: "session \<Rightarrow> database" where
  "session_exit s = committed s"

text \<open>The three \<^verbatim>\<open>delete(...).where(...)\<close> statements, in the order of the route.\<close>

definition delete_tweets :: "int \<Rightarrow> database \<Rightarrow> database" where
  "delete_tweets uid db = db\<lparr>tweets := filter (\<lambda>t. author_id t \<noteq> uid) (tweets db)\<rparr>"

definition delete_following :: "int \<Rightarrow> database \<Rightarrow> database" where
  "delete_following uid db =
     db\<lparr>followers_association := filter (\<lambda>e. fst e \<noteq> uid) (followers_association db)\<rparr>"

definition delete_followed :: "int \<Rightarrow> database \<Rightarrow> database" where
  "delete_followed uid db =
     db\<lparr>followers_association := filter (\<lambda>e. snd e \<noteq> uid) (followers_association db)\<rparr>"

text \<open>
  \<^verbatim>\<open>db.delete(user)\<close> removes the row of the loaded object. What the ORM does to the user's
  bio on the way is declared with the tables, outside the source: the parameter
  \<open>on_delete\<close> is that effect on the bio table.
\<close>

definition delete_row ::
  "(int \<Rightarrow> bio list \<Rightarrow> bio list) \<Rightarrow> user \<Rightarrow> database \<Rightarrow> database" where
  "delete_row on_delete user db =
     db\<lparr>users := filter (\<lambda>u. user_id u \<noteq> user_id user) (users db),
        bios := on_delete (user_id user) (bios db)\<rparr>"

definition delete_user ::
  "(nat \<Rightarrow> bool) \<Rightarrow> (int \<Rightarrow> bio list \<Rightarrow> bio list) \<Rightarrow> database \<Rightarrow> int
     \<Rightarrow> (error + unit) \<times> database" where
  "delete_user fails on_delete db uid =
     (let s = new_session db in
      if fails 0 then (Inl DBAPIError, session_exit s)
      else
        (case scalar_one_or_none (select_user (working s) uid) of
           Inl e \<Rightarrow> (Inl e, session_exit s)
         | Inr None \<Rightarrow>
             (Inl (HTTPException 404 (''User '' @ str_int uid @ '' not found'')), session_exit s)
         | Inr (Some user) \<Rightarrow>
             (case execute fails 1 (delete_tweets uid) s of
                Inl e \<Rightarrow> (Inl e, session_exit s)
              | Inr s1 \<Rightarrow>
             (case execute fails 2 (delete_following uid) s1 of
                Inl e \<Rightarrow> (Inl e, session_exit s1)
              | Inr s2 \<Rightarrow>
             (case execute fails 3 (delete_followed uid) s2 of
                Inl e \<Rightarrow> (Inl e, session_exit s2)
              | Inr s3 \<Rightarrow>
             (case execute fails 4 (delete_row on_delete user) s3 of
                Inl e \<Rightarrow> (Inl e, session_exit s3)
              | Inr s4 \<Rightarrow>
             (case commit fails 5 s4 of
                Inl e \<Rightarrow> (Inl e, session_exit s4)
              | Inr s5 \<Rightarrow> (Inr (), session_exit s5))))))))"

text \<open>
  The database with the whole cascade applied: no tweet of the user, no follower edge
  with the user at either end, no user row.
\<close>

definition cascade_deleted ::
  "(int \<Rightarrow> bio list \<Rightarrow> bio list) \<Rightarrow> int \<Rightarrow> database \<Rightarrow> database" where
  "cascade_deleted on_delete uid db =
     db\<lparr>users := filter (\<lambda>u. user_id u \<noteq> uid) (users db),
        bios := on_delete uid (bios db),
        tweets := filter (\<lambda>t. author_id t \<noteq> uid) (tweets db),
        followers_association :=
          filter (\<lambda>e. fst e \<noteq> uid \<and> snd e \<noteq> uid) (followers_association db)\<rparr>"

text \<open>
  The order the ordering claims are stated in: a row comes before another when its fake
  time is smaller (a null counting as the largest), and on equal fake times when its
  identifier is not larger.
\<close>

definition fake_time_less :: "datetime option \<Rightarrow> datetime option \<Rightarrow> bool" where
  "fake_time_less a b =
     (case a of None \<Rightarrow> False | Some x \<Rightarrow> (case b of None \<Rightarrow> True | Some y \<Rightarrow> x < y))"

definition comes_before :: "tweet \<Rightarrow> tweet \<Rightarrow> bool" where
  "comes_before a b \<longleftrightarrow>
     fake_time_less (fake_time a) (fake_time b) \<or>
     (fake_time a = fake_time b \<and> tweet_id a \<le> tweet_id b)"

definition ordered :: "bool \<Rightarrow> tweet list \<Rightarrow> bool" where
  "ordered ascending ts \<longleftrightarrow>
     (if ascending then sorted_wrt comes_before ts
      else sorted_wrt (\<lambda>a b. comes_before b a) ts)"

text \<open>
  What it is for a list of rows to be the first \<open>limit\<close> rows of the candidates in the
  requested order, said without the sorting function: the rows are as many as the limit
  allows, they are candidates (each as often as it is one), they are in order, and every
  candidate left out belongs after each of them. \<open>leftover\<close> removes the rows from the
  candidates, one occurrence for each.
\<close>

definition leftover :: "tweet list \<Rightarrow> tweet list \<Rightarrow> tweet list" where
  "leftover candidates ts = fold remove1 ts candidates"

definition first_rows :: "bool \<Rightarrow> int \<Rightarrow> tweet list \<Rightarrow> tweet list \<Rightarrow> bool" where
  "first_rows ascending limit candidates ts \<longleftrightarrow>
     length ts = min (nat limit) (length candidates) \<and>
     mset ts \<subseteq># mset candidates \<and>
     ordered ascending ts \<and>
     (\<forall>t \<in> set ts. \<forall>c \<in> set (leftover candidates ts).
        if ascending then comes_before t c else comes_before c t)"

text \<open>
  Ties on the fake time are broken by the identifier: of two rows with the same fake
  time, the one listed first has the smaller identifier in ascending order and the larger
  one in descending order.
\<close>

definition ties_by_tweet_id :: "bool \<Rightarrow> tweet list \<Rightarrow> bool" where
  "ties_by_tweet_id ascending ts \<longleftrightarrow>
     (\<forall>j \<in> {..<length ts}. \<forall>i \<in> {..<j}.
        fake_time (ts ! i) = fake_time (ts ! j) \<longrightarrow>
        (if ascending then tweet_id (ts ! i) \<le> tweet_id (ts ! j)
         else tweet_id (ts ! j) \<le> tweet_id (ts ! i)))"

text \<open>
  A small database to run the routes on: Alice (1) follows Bob (2), Carol (3) follows
  Alice; Bob has four tweets, one of them without a fake time and two at the same fake
  time, and Carol has one.
\<close>

definition example_db :: database where
  "example_db =
     \<lparr>users = [\<lparr>user_id = 1, user_name = ''alice'', display_name = ''Alice''\<rparr>,
               \<lparr>user_id = 2, user_name = ''bob'', display_name = ''Bob''\<rparr>,
               \<lparr>user_id = 3, user_name = ''carol'', display_name = ''Carol''\<rparr>],
      bios = [\<lparr>bio_user_id = 2, content = Some ''hello''\<rparr>],
      tweets = [\<lparr>tweet_id = 1, author_id = 2, body = ''a'', fake_time = Some 10\<rparr>,
                \<lparr>tweet_id = 2, author_id = 2, body = ''b'', fake_time = Some 20\<rparr>,
                \<lparr>tweet_id = 3, author_id = 2, body = ''c'', fake_time = None\<rparr>,
                \<lparr>tweet_id = 4, author_id = 3, body = ''d'', fake_time = Some 5\<rparr>,
                \<lparr>tweet_id = 5, author_id = 2, body = ''e'', fake_time = Some 10\<rparr>],
      followers_association = [(1, 2), (3, 1)],
      user_id_seq = 4,
      tweet_id_seq = 6\<rparr>"

text \<open>
  One way the table declarations can treat the bio of a deleted user: delete it with the
  user. The example database after the cascade for Bob (2) with that rule.
\<close>

definition delete_bio :: "int \<Rightarrow> bio list \<Rightarrow> bio list" where
  "delete_bio uid rows = filter (\<lambda>b. bio_user_id b \<noteq> uid) rows"

definition example_deleted :: database where
  "example_deleted =
     \<lparr>users = [\<lparr>user_id = 1, user_name = ''alice'', display_name = ''Alice''\<rparr>,
               \<lparr>user_id = 3, user_name = ''carol'', display_name = ''Carol''\<rparr>],
      bios = [],
      tweets = [\<lparr>tweet_id = 4, author_id = 3, body = ''d'', fake_time = Some 5\<rparr>],
      followers_association = [(3, 1)],
      user_id_seq = 4,
      tweet_id_seq = 6\<rparr>"

text \<open>The rows that the two creation routes add to the example database.\<close>

definition example_user :: user where
  "example_user = \<lparr>user_id = 4, user_name = ''dave'', display_name = ''Dave''\<rparr>"

definition example_tweet :: tweet where
  "example_tweet = \<lparr>tweet_id = 6, author_id = 1, body = ''hi'', fake_time = None\<rparr>"

section \<open>Properties\<close>

subsection \<open>Ordering, limit and the filters\<close>

lemma limit_clause_Inr:
  "limit_clause n rows = Inr ts \<longleftrightarrow> valid_limit n \<and> ts = take (nat n) rows"
  by (auto simp: limit_clause_def valid_limit_def)

lemma limit_clause_valid: "valid_limit n \<Longrightarrow> limit_clause n rows = Inr (take (nat n) rows)"
  by (simp add: limit_clause_Inr)

lemma limit_clause_invalid: "\<not> valid_limit n \<Longrightarrow> limit_clause n rows = Inl DBAPIError"
  by (auto simp: limit_clause_def valid_limit_def)

lemma mset_leftover: "mset (leftover candidates ts) = mset candidates - mset ts"
  unfolding leftover_def
proof (induction ts arbitrary: candidates)
  case Nil
  show ?case
    by simp
next
  case (Cons t ts)
  have "mset (fold remove1 (t # ts) candidates) = mset (remove1 t candidates) - mset ts"
    by (simp add: Cons.IH)
  also have "\<dots> = mset candidates - mset (t # ts)"
    by simp
  finally show ?case .
qed

lemma leftover_take: "mset (leftover rows (take n rows)) = mset (drop n rows)"
proof -
  have "mset rows = mset (take n rows) + mset (drop n rows)"
    by (metis append_take_drop_id mset_append)
  then show ?thesis
    by (simp add: mset_leftover)
qed

lemma set_order_by: "set (order_by ascending rows) = set rows"
  by (simp add: order_by_def)

lemma length_order_by: "length (order_by ascending rows) = length rows"
  by (simp add: order_by_def)

lemma order_key_le: "order_key a \<le> order_key b \<longleftrightarrow> comes_before a b"
  by (auto simp: order_key_def comes_before_def fake_time_less_def split: option.splits)

lemma sorted_sort_key_comes_before: "sorted_wrt comes_before (sort_key order_key rows)"
proof -
  have "sorted (map order_key (sort_key order_key rows))"
    by (rule sorted_sort_key)
  then show ?thesis
    by (simp add: sorted_map order_key_le)
qed

lemma ordered_order_by: "ordered ascending (order_by ascending rows)"
  by (simp add: ordered_def order_by_def sorted_sort_key_comes_before sorted_wrt_rev)

lemma ordered_take: "ordered ascending ts \<Longrightarrow> ordered ascending (take n ts)"
  by (auto simp: ordered_def intro: sorted_wrt_take)

lemma limited_rows:
  assumes "limit_clause limit (order_by ascending rows) = Inr ts"
  shows "ordered ascending ts" and "set ts \<subseteq> set rows"
    and "length ts = min (nat limit) (length rows)"
    and "int (length rows) \<le> limit \<Longrightarrow> set ts = set rows"
proof -
  from assms have ts: "ts = take (nat limit) (order_by ascending rows)" and "0 \<le> limit"
    by (simp_all add: limit_clause_Inr valid_limit_def)
  show "ordered ascending ts"
    unfolding ts by (rule ordered_take) (rule ordered_order_by)
  have "set ts \<subseteq> set (order_by ascending rows)"
    unfolding ts by (rule set_take_subset)
  then show "set ts \<subseteq> set rows"
    by (simp add: set_order_by)
  show "length ts = min (nat limit) (length rows)"
    unfolding ts by (simp add: length_order_by min.commute)
  show "set ts = set rows" if "int (length rows) \<le> limit"
  proof -
    from that have "length (order_by ascending rows) \<le> nat limit"
      by (simp add: length_order_by)
    then show ?thesis
      unfolding ts by (simp add: set_order_by)
  qed
qed

lemma mset_order_by: "mset (order_by ascending rows) = mset rows"
  by (simp add: order_by_def)

lemma sorted_wrt_take_drop:
  assumes "sorted_wrt P xs" and "t \<in> set (take n xs)" and "c \<in> set (drop n xs)"
  shows "P t c"
proof -
  from assms(1) have "sorted_wrt P (take n xs @ drop n xs)"
    by simp
  with assms(2,3) show ?thesis
    unfolding sorted_wrt_append by blast
qed

lemma limited_first_rows:
  assumes "limit_clause limit (order_by ascending rows) = Inr ts"
  shows "first_rows ascending limit rows ts"
proof -
  let ?xs = "order_by ascending rows"
  let ?n = "nat limit"
  from assms have ts: "ts = take ?n ?xs"
    by (simp add: limit_clause_Inr)
  have split: "mset ?xs = mset (take ?n ?xs) + mset (drop ?n ?xs)"
    by (metis append_take_drop_id mset_append)
  have sub: "mset ts \<subseteq># mset rows"
    using split by (metis ts mset_order_by mset_subset_eq_add_left)
  have "mset (leftover rows ts) = mset ?xs - mset (take ?n ?xs)"
    by (simp add: mset_leftover mset_order_by ts)
  also have "\<dots> = mset (drop ?n ?xs)"
    using split by simp
  finally have left: "set (leftover rows ts) = set (drop ?n ?xs)"
    by (rule mset_eq_setD)
  have later: "\<forall>t \<in> set ts. \<forall>c \<in> set (leftover rows ts).
      if ascending then comes_before t c else comes_before c t"
  proof (intro ballI)
    fix t c
    assume t0: "t \<in> set ts" and c0: "c \<in> set (leftover rows ts)"
    from t0 have t: "t \<in> set (take ?n ?xs)"
      by (simp add: ts)
    from c0 left have c: "c \<in> set (drop ?n ?xs)"
      by blast
    show "if ascending then comes_before t c else comes_before c t"
    proof (cases ascending)
      case True
      with ordered_order_by [of ascending rows] have "sorted_wrt comes_before ?xs"
        by (simp add: ordered_def)
      from sorted_wrt_take_drop [OF this t c] True show ?thesis
        by simp
    next
      case False
      with ordered_order_by [of ascending rows]
      have "sorted_wrt (\<lambda>a b. comes_before b a) ?xs"
        by (simp add: ordered_def)
      from sorted_wrt_take_drop [OF this t c] False show ?thesis
        by simp
    qed
  qed
  from limited_rows(1,3) [OF assms] sub later show ?thesis
    by (simp add: first_rows_def)
qed

lemma visible_at_iff:
  "visible_at cutoff t \<longleftrightarrow> fake_time t = None \<or> (\<exists>ft. fake_time t = Some ft \<and> ft \<le> cutoff)"
  by (cases "fake_time t") (simp_all add: visible_at_def)

lemma followed_users_iff:
  "a \<in> set (followed_users db uid) \<longleftrightarrow> (uid, a) \<in> set (followers_association db)"
  by (force simp: followed_users_def)

lemma example_timeline:
  "read_timeline example_db 10 1 2 False =
     Inr [\<lparr>tweet_id = 3, author_id = 2, body = ''c'', fake_time = None\<rparr>,
          \<lparr>tweet_id = 5, author_id = 2, body = ''e'', fake_time = Some 10\<rparr>]"
  by (simp add: read_timeline_def example_db_def timeline_where_def followed_users_def
      visible_at_def order_by_def order_key_def limit_clause_def)

text \<open>
  C5. Every tweet of a timeline is written by a user the queried user follows: there is
  a follower edge from the queried user to the author. A tweet of anybody else is not in
  the timeline.
\<close>

theorem timeline_authors_followed:
  assumes "read_timeline db cutoff uid limit ascending = Inr ts"
  shows "\<forall>t \<in> set ts. (uid, author_id t) \<in> set (followers_association db)"
proof
  fix t
  assume "t \<in> set ts"
  with limited_rows(2) [OF assms [unfolded read_timeline_def]]
  have "t \<in> set (timeline_where db cutoff uid)"
    by blast
  then have "author_id t \<in> set (followed_users db uid)"
    by (simp add: timeline_where_def)
  then show "(uid, author_id t) \<in> set (followers_association db)"
    by (simp add: followed_users_iff)
qed

theorem timeline_authors_followed_witness:
  "read_timeline example_db 10 1 2 False =
     Inr [\<lparr>tweet_id = 3, author_id = 2, body = ''c'', fake_time = None\<rparr>,
          \<lparr>tweet_id = 5, author_id = 2, body = ''e'', fake_time = Some 10\<rparr>] \<and>
   (1, 2) \<in> set (followers_association example_db)"
  using timeline_authors_followed [OF example_timeline] example_timeline
  by simp

lemma fake_time_less_irrefl: "\<not> fake_time_less a a"
  by (simp add: fake_time_less_def split: option.splits)

lemma ordered_ties:
  assumes "ordered ascending ts"
  shows "ties_by_tweet_id ascending ts"
  unfolding ties_by_tweet_id_def
proof (intro ballI impI)
  fix j i
  assume "j \<in> {..<length ts}" and "i \<in> {..<j}"
    and eq: "fake_time (ts ! i) = fake_time (ts ! j)"
  then have ij: "i < j" "j < length ts"
    by simp_all
  show "if ascending then tweet_id (ts ! i) \<le> tweet_id (ts ! j)
        else tweet_id (ts ! j) \<le> tweet_id (ts ! i)"
  proof (cases ascending)
    case True
    with assms have "sorted_wrt comes_before ts"
      by (simp add: ordered_def)
    with ij have "comes_before (ts ! i) (ts ! j)"
      by (simp add: sorted_wrt_iff_nth_less)
    with eq True show ?thesis
      by (simp add: comes_before_def fake_time_less_irrefl)
  next
    case False
    with assms have "sorted_wrt (\<lambda>a b. comes_before b a) ts"
      by (simp add: ordered_def)
    with ij have "comes_before (ts ! j) (ts ! i)"
      by (simp add: sorted_wrt_iff_nth_less)
    with eq False show ?thesis
      by (simp add: comes_before_def fake_time_less_irrefl)
  qed
qed

lemma example_posts:
  "read_posts example_db 10 2 5 True =
     Inr [\<lparr>tweet_id = 1, author_id = 2, body = ''a'', fake_time = Some 10\<rparr>,
          \<lparr>tweet_id = 5, author_id = 2, body = ''e'', fake_time = Some 10\<rparr>,
          \<lparr>tweet_id = 3, author_id = 2, body = ''c'', fake_time = None\<rparr>]"
  by (simp add: read_posts_def example_db_def posts_where_def
      visible_at_def order_by_def order_key_def limit_clause_def)

lemma example_tweets:
  "read_tweets example_db 3 False =
     Inr [\<lparr>tweet_id = 3, author_id = 2, body = ''c'', fake_time = None\<rparr>,
          \<lparr>tweet_id = 2, author_id = 2, body = ''b'', fake_time = Some 20\<rparr>,
          \<lparr>tweet_id = 5, author_id = 2, body = ''e'', fake_time = Some 10\<rparr>]"
  by (simp add: read_tweets_def example_db_def order_by_def order_key_def limit_clause_def)

lemma example_timeline_where:
  "timeline_where example_db 10 1 =
     [\<lparr>tweet_id = 1, author_id = 2, body = ''a'', fake_time = Some 10\<rparr>,
      \<lparr>tweet_id = 3, author_id = 2, body = ''c'', fake_time = None\<rparr>,
      \<lparr>tweet_id = 5, author_id = 2, body = ''e'', fake_time = Some 10\<rparr>]"
  by (simp add: example_db_def timeline_where_def followed_users_def visible_at_def)

lemma example_posts_where:
  "posts_where example_db 10 2 =
     [\<lparr>tweet_id = 1, author_id = 2, body = ''a'', fake_time = Some 10\<rparr>,
      \<lparr>tweet_id = 3, author_id = 2, body = ''c'', fake_time = None\<rparr>,
      \<lparr>tweet_id = 5, author_id = 2, body = ''e'', fake_time = Some 10\<rparr>]"
  by (simp add: example_db_def posts_where_def visible_at_def)

lemma example_timeline_all:
  "read_timeline example_db 10 1 5 True =
     Inr [\<lparr>tweet_id = 1, author_id = 2, body = ''a'', fake_time = Some 10\<rparr>,
          \<lparr>tweet_id = 5, author_id = 2, body = ''e'', fake_time = Some 10\<rparr>,
          \<lparr>tweet_id = 3, author_id = 2, body = ''c'', fake_time = None\<rparr>]"
  by (simp add: read_timeline_def example_db_def timeline_where_def followed_users_def
      visible_at_def order_by_def order_key_def limit_clause_def)

lemma example_timeline_early:
  "read_timeline example_db 0 1 5 True =
     Inr [\<lparr>tweet_id = 3, author_id = 2, body = ''c'', fake_time = None\<rparr>]"
  by (simp add: read_timeline_def example_db_def timeline_where_def followed_users_def
      visible_at_def order_by_def order_key_def limit_clause_def)

text \<open>
  C4. The rows of the timeline query and of the posts query, before the limit, are exactly
  the tweets of the authors in question (the users to whom a follower edge leads from the
  queried user, or the one user) whose fake time is null or at most the cutoff: such a
  tweet without a fake time is a candidate whatever the cutoff is, a tweet with one only
  when it is not after the cutoff. What a route returns is taken from these candidates,
  and is all of them when the limit is not smaller than their number.
\<close>

theorem fake_time_cutoff_filter:
  "set (timeline_where db cutoff uid) =
     {t \<in> set (tweets db). (uid, author_id t) \<in> set (followers_association db) \<and>
        (fake_time t = None \<or> (\<exists>ft. fake_time t = Some ft \<and> ft \<le> cutoff))} \<and>
   set (posts_where db cutoff uid) =
     {t \<in> set (tweets db). author_id t = uid \<and>
        (fake_time t = None \<or> (\<exists>ft. fake_time t = Some ft \<and> ft \<le> cutoff))} \<and>
   (\<forall>ts. read_timeline db cutoff uid limit ascending = Inr ts \<longrightarrow>
      set ts \<subseteq> set (timeline_where db cutoff uid) \<and>
      (int (length (timeline_where db cutoff uid)) \<le> limit \<longrightarrow>
         set ts = set (timeline_where db cutoff uid))) \<and>
   (\<forall>ts. read_posts db cutoff uid limit ascending = Inr ts \<longrightarrow>
      set ts \<subseteq> set (posts_where db cutoff uid) \<and>
      (int (length (posts_where db cutoff uid)) \<le> limit \<longrightarrow>
         set ts = set (posts_where db cutoff uid)))"
proof (intro conjI allI impI)
  show "set (timeline_where db cutoff uid) =
     {t \<in> set (tweets db). (uid, author_id t) \<in> set (followers_association db) \<and>
        (fake_time t = None \<or> (\<exists>ft. fake_time t = Some ft \<and> ft \<le> cutoff))}"
    by (auto simp: timeline_where_def visible_at_iff followed_users_iff)
  show "set (posts_where db cutoff uid) =
     {t \<in> set (tweets db). author_id t = uid \<and>
        (fake_time t = None \<or> (\<exists>ft. fake_time t = Some ft \<and> ft \<le> cutoff))}"
    by (auto simp: posts_where_def visible_at_iff)
next
  fix ts
  assume "read_timeline db cutoff uid limit ascending = Inr ts"
  then have r: "limit_clause limit (order_by ascending (timeline_where db cutoff uid)) = Inr ts"
    by (simp add: read_timeline_def)
  show "set ts \<subseteq> set (timeline_where db cutoff uid)"
    by (rule limited_rows(2) [OF r])
  show "set ts = set (timeline_where db cutoff uid)"
    if "int (length (timeline_where db cutoff uid)) \<le> limit"
    by (rule limited_rows(4) [OF r that])
next
  fix ts
  assume "read_posts db cutoff uid limit ascending = Inr ts"
  then have r: "limit_clause limit (order_by ascending (posts_where db cutoff uid)) = Inr ts"
    by (simp add: read_posts_def)
  show "set ts \<subseteq> set (posts_where db cutoff uid)"
    by (rule limited_rows(2) [OF r])
  show "set ts = set (posts_where db cutoff uid)"
    if "int (length (posts_where db cutoff uid)) \<le> limit"
    by (rule limited_rows(4) [OF r that])
qed

theorem fake_time_cutoff_filter_witness:
  "(1, 2) \<in> set (followers_association example_db) \<and>
   \<lparr>tweet_id = 3, author_id = 2, body = ''c'', fake_time = None\<rparr>
     \<in> set (timeline_where example_db 10 1) \<and>
   \<lparr>tweet_id = 3, author_id = 2, body = ''c'', fake_time = None\<rparr>
     \<in> set (timeline_where example_db 0 1) \<and>
   \<lparr>tweet_id = 2, author_id = 2, body = ''b'', fake_time = Some 20\<rparr>
     \<notin> set (timeline_where example_db 10 1) \<and>
   \<lparr>tweet_id = 4, author_id = 3, body = ''d'', fake_time = Some 5\<rparr>
     \<notin> set (timeline_where example_db 10 1) \<and>
   read_timeline example_db 10 1 5 True =
     Inr [\<lparr>tweet_id = 1, author_id = 2, body = ''a'', fake_time = Some 10\<rparr>,
          \<lparr>tweet_id = 5, author_id = 2, body = ''e'', fake_time = Some 10\<rparr>,
          \<lparr>tweet_id = 3, author_id = 2, body = ''c'', fake_time = None\<rparr>] \<and>
   set [\<lparr>tweet_id = 1, author_id = 2, body = ''a'', fake_time = Some 10\<rparr>,
        \<lparr>tweet_id = 5, author_id = 2, body = ''e'', fake_time = Some 10\<rparr>,
        \<lparr>tweet_id = 3, author_id = 2, body = ''c'', fake_time = None\<rparr>] =
     set (timeline_where example_db 10 1) \<and>
   read_timeline example_db 0 1 5 True =
     Inr [\<lparr>tweet_id = 3, author_id = 2, body = ''c'', fake_time = None\<rparr>] \<and>
   read_posts example_db 10 2 5 True =
     Inr [\<lparr>tweet_id = 1, author_id = 2, body = ''a'', fake_time = Some 10\<rparr>,
          \<lparr>tweet_id = 5, author_id = 2, body = ''e'', fake_time = Some 10\<rparr>,
          \<lparr>tweet_id = 3, author_id = 2, body = ''c'', fake_time = None\<rparr>] \<and>
   set [\<lparr>tweet_id = 1, author_id = 2, body = ''a'', fake_time = Some 10\<rparr>,
        \<lparr>tweet_id = 5, author_id = 2, body = ''e'', fake_time = Some 10\<rparr>,
        \<lparr>tweet_id = 3, author_id = 2, body = ''c'', fake_time = None\<rparr>] =
     set (posts_where example_db 10 2) \<and>
   \<lparr>tweet_id = 3, author_id = 2, body = ''c'', fake_time = None\<rparr>
     \<in> set (posts_where example_db 10 2) \<and>
   \<lparr>tweet_id = 2, author_id = 2, body = ''b'', fake_time = Some 20\<rparr>
     \<notin> set (posts_where example_db 10 2)"
proof -
  note at_10 = fake_time_cutoff_filter [of example_db 10 1 5 True]
  note at_0 = fake_time_cutoff_filter [of example_db 0 1 5 True]
  note posts = fake_time_cutoff_filter [of example_db 10 2 5 True]
  from at_10 have timeline_10: "set (timeline_where example_db 10 1) =
     {t \<in> set (tweets example_db). (1, author_id t) \<in> set (followers_association example_db) \<and>
        (fake_time t = None \<or> (\<exists>ft. fake_time t = Some ft \<and> ft \<le> 10))}"
    by (rule conjunct1)
  from at_0 have timeline_0: "set (timeline_where example_db 0 1) =
     {t \<in> set (tweets example_db). (1, author_id t) \<in> set (followers_association example_db) \<and>
        (fake_time t = None \<or> (\<exists>ft. fake_time t = Some ft \<and> ft \<le> 0))}"
    by (rule conjunct1)
  from posts have posts_10: "set (posts_where example_db 10 2) =
     {t \<in> set (tweets example_db). author_id t = 2 \<and>
        (fake_time t = None \<or> (\<exists>ft. fake_time t = Some ft \<and> ft \<le> 10))}"
    by blast
  have edge: "(1, 2) \<in> set (followers_association example_db)"
    by (simp add: example_db_def)
  have members: "\<lparr>tweet_id = 3, author_id = 2, body = ''c'', fake_time = None\<rparr>
       \<in> set (timeline_where example_db 10 1)"
    "\<lparr>tweet_id = 3, author_id = 2, body = ''c'', fake_time = None\<rparr>
       \<in> set (timeline_where example_db 0 1)"
    "\<lparr>tweet_id = 2, author_id = 2, body = ''b'', fake_time = Some 20\<rparr>
       \<notin> set (timeline_where example_db 10 1)"
    "\<lparr>tweet_id = 4, author_id = 3, body = ''d'', fake_time = Some 5\<rparr>
       \<notin> set (timeline_where example_db 10 1)"
    "\<lparr>tweet_id = 3, author_id = 2, body = ''c'', fake_time = None\<rparr>
       \<in> set (posts_where example_db 10 2)"
    "\<lparr>tweet_id = 2, author_id = 2, body = ''b'', fake_time = Some 20\<rparr>
       \<notin> set (posts_where example_db 10 2)"
    unfolding timeline_10 timeline_0 posts_10 by (simp_all add: example_db_def)
  have "int (length (timeline_where example_db 10 1)) \<le> 5"
    by (simp add: example_timeline_where)
  with at_10 example_timeline_all
  have all_timeline: "set [\<lparr>tweet_id = 1, author_id = 2, body = ''a'', fake_time = Some 10\<rparr>,
        \<lparr>tweet_id = 5, author_id = 2, body = ''e'', fake_time = Some 10\<rparr>,
        \<lparr>tweet_id = 3, author_id = 2, body = ''c'', fake_time = None\<rparr>] =
     set (timeline_where example_db 10 1)"
    by blast
  have "int (length (posts_where example_db 10 2)) \<le> 5"
    by (simp add: example_posts_where)
  with posts example_posts
  have all_posts: "set [\<lparr>tweet_id = 1, author_id = 2, body = ''a'', fake_time = Some 10\<rparr>,
        \<lparr>tweet_id = 5, author_id = 2, body = ''e'', fake_time = Some 10\<rparr>,
        \<lparr>tweet_id = 3, author_id = 2, body = ''c'', fake_time = None\<rparr>] =
     set (posts_where example_db 10 2)"
    by blast
  from edge members all_timeline all_posts example_timeline_all example_timeline_early
    example_posts
  show ?thesis
    by (intro conjI)
qed

lemma example_newest_tweet:
  "read_tweets example_db 1 False =
     Inr [\<lparr>tweet_id = 3, author_id = 2, body = ''c'', fake_time = None\<rparr>]"
  by (simp add: read_tweets_def example_db_def order_by_def order_key_def limit_clause_def)

text \<open>
  C6. What the timeline, posts and tweet-listing routes return is sorted by
  (fake time, identifier): ascending when \<open>ascending\<close> is true, descending when it is
  false, rows with the same fake time in the order of their identifiers. It is truncated
  to the limit: it is the first \<open>limit\<close> rows of the candidates in that order, all of them
  when there are fewer, so every candidate that is left out belongs after the rows that
  are returned. A route returns rows for exactly the limits the database accepts (from 0
  to \<open>2\<^sup>6\<^sup>3 - 1\<close>); for any other limit the query fails.
\<close>

theorem ordering_and_limit:
  "(\<forall>ts. read_timeline db cutoff uid limit ascending = Inr ts \<longrightarrow>
      first_rows ascending limit (timeline_where db cutoff uid) ts \<and>
      ordered ascending ts \<and> ties_by_tweet_id ascending ts \<and> int (length ts) \<le> limit \<and>
      length ts = min (nat limit) (length (timeline_where db cutoff uid))) \<and>
   (\<forall>ts. read_posts db cutoff uid limit ascending = Inr ts \<longrightarrow>
      first_rows ascending limit (posts_where db cutoff uid) ts \<and>
      ordered ascending ts \<and> ties_by_tweet_id ascending ts \<and> int (length ts) \<le> limit \<and>
      length ts = min (nat limit) (length (posts_where db cutoff uid))) \<and>
   (\<forall>ts. read_tweets db limit ascending = Inr ts \<longrightarrow>
      first_rows ascending limit (tweets db) ts \<and>
      ordered ascending ts \<and> ties_by_tweet_id ascending ts \<and> int (length ts) \<le> limit \<and>
      length ts = min (nat limit) (length (tweets db))) \<and>
   (valid_limit limit \<longrightarrow>
      (\<exists>ts. read_timeline db cutoff uid limit ascending = Inr ts) \<and>
      (\<exists>ts. read_posts db cutoff uid limit ascending = Inr ts) \<and>
      (\<exists>ts. read_tweets db limit ascending = Inr ts)) \<and>
   (\<not> valid_limit limit \<longrightarrow>
      read_timeline db cutoff uid limit ascending = Inl DBAPIError \<and>
      read_posts db cutoff uid limit ascending = Inl DBAPIError \<and>
      read_tweets db limit ascending = Inl DBAPIError)"
proof -
  have rows: "first_rows ascending limit rows ts \<and>
      ordered ascending ts \<and> ties_by_tweet_id ascending ts \<and> int (length ts) \<le> limit \<and>
      length ts = min (nat limit) (length rows)"
    if "limit_clause limit (order_by ascending rows) = Inr ts" for rows ts
  proof -
    from that have "0 \<le> limit"
      by (simp add: limit_clause_Inr valid_limit_def)
    with limited_rows(1,3) [OF that] ordered_ties [of ascending ts]
      limited_first_rows [OF that]
    show ?thesis
      by simp
  qed
  have timeline: "\<forall>ts. read_timeline db cutoff uid limit ascending = Inr ts \<longrightarrow>
      first_rows ascending limit (timeline_where db cutoff uid) ts \<and>
      ordered ascending ts \<and> ties_by_tweet_id ascending ts \<and> int (length ts) \<le> limit \<and>
      length ts = min (nat limit) (length (timeline_where db cutoff uid))"
    unfolding read_timeline_def using rows by blast
  have posts: "\<forall>ts. read_posts db cutoff uid limit ascending = Inr ts \<longrightarrow>
      first_rows ascending limit (posts_where db cutoff uid) ts \<and>
      ordered ascending ts \<and> ties_by_tweet_id ascending ts \<and> int (length ts) \<le> limit \<and>
      length ts = min (nat limit) (length (posts_where db cutoff uid))"
    unfolding read_posts_def using rows by blast
  have tweets: "\<forall>ts. read_tweets db limit ascending = Inr ts \<longrightarrow>
      first_rows ascending limit (tweets db) ts \<and>
      ordered ascending ts \<and> ties_by_tweet_id ascending ts \<and> int (length ts) \<le> limit \<and>
      length ts = min (nat limit) (length (tweets db))"
    unfolding read_tweets_def using rows by blast
  have returns: "valid_limit limit \<longrightarrow>
      (\<exists>ts. read_timeline db cutoff uid limit ascending = Inr ts) \<and>
      (\<exists>ts. read_posts db cutoff uid limit ascending = Inr ts) \<and>
      (\<exists>ts. read_tweets db limit ascending = Inr ts)"
    by (simp add: read_timeline_def read_posts_def read_tweets_def limit_clause_valid)
  have fails: "\<not> valid_limit limit \<longrightarrow>
      read_timeline db cutoff uid limit ascending = Inl DBAPIError \<and>
      read_posts db cutoff uid limit ascending = Inl DBAPIError \<and>
      read_tweets db limit ascending = Inl DBAPIError"
    by (simp add: read_timeline_def read_posts_def read_tweets_def limit_clause_invalid)
  from timeline posts tweets returns fails show ?thesis
    by (intro conjI)
qed

theorem ordering_and_limit_witness:
  "valid_limit 3 \<and>
   read_tweets example_db 3 False =
     Inr [\<lparr>tweet_id = 3, author_id = 2, body = ''c'', fake_time = None\<rparr>,
          \<lparr>tweet_id = 2, author_id = 2, body = ''b'', fake_time = Some 20\<rparr>,
          \<lparr>tweet_id = 5, author_id = 2, body = ''e'', fake_time = Some 10\<rparr>] \<and>
   ordered False
     [\<lparr>tweet_id = 3, author_id = 2, body = ''c'', fake_time = None\<rparr>,
      \<lparr>tweet_id = 2, author_id = 2, body = ''b'', fake_time = Some 20\<rparr>,
      \<lparr>tweet_id = 5, author_id = 2, body = ''e'', fake_time = Some 10\<rparr>] \<and>
   read_tweets example_db 1 False =
     Inr [\<lparr>tweet_id = 3, author_id = 2, body = ''c'', fake_time = None\<rparr>] \<and>
   first_rows False 1 (tweets example_db)
     [\<lparr>tweet_id = 3, author_id = 2, body = ''c'', fake_time = None\<rparr>] \<and>
   \<not> first_rows False 1 (tweets example_db)
     [\<lparr>tweet_id = 1, author_id = 2, body = ''a'', fake_time = Some 10\<rparr>] \<and>
   read_timeline example_db 10 1 2 False =
     Inr [\<lparr>tweet_id = 3, author_id = 2, body = ''c'', fake_time = None\<rparr>,
          \<lparr>tweet_id = 5, author_id = 2, body = ''e'', fake_time = Some 10\<rparr>] \<and>
   first_rows False 2 (timeline_where example_db 10 1)
     [\<lparr>tweet_id = 3, author_id = 2, body = ''c'', fake_time = None\<rparr>,
      \<lparr>tweet_id = 5, author_id = 2, body = ''e'', fake_time = Some 10\<rparr>] \<and>
   length [\<lparr>tweet_id = 3, author_id = 2, body = ''c'', fake_time = None\<rparr>,
      \<lparr>tweet_id = 5, author_id = 2, body = ''e'', fake_time = Some 10\<rparr>] =
     min (nat 2) (length (timeline_where example_db 10 1)) \<and>
   \<not> valid_limit (- 1) \<and>
   read_tweets example_db (- 1) False = Inl DBAPIError"
proof -
  from ordering_and_limit [of example_db 10 1 2 False] example_timeline
  have "first_rows False 2 (timeline_where example_db 10 1)
     [\<lparr>tweet_id = 3, author_id = 2, body = ''c'', fake_time = None\<rparr>,
      \<lparr>tweet_id = 5, author_id = 2, body = ''e'', fake_time = Some 10\<rparr>] \<and>
   length [\<lparr>tweet_id = 3, author_id = 2, body = ''c'', fake_time = None\<rparr>,
      \<lparr>tweet_id = 5, author_id = 2, body = ''e'', fake_time = Some 10\<rparr>] =
     min (nat 2) (length (timeline_where example_db 10 1))"
    by blast
  moreover from ordering_and_limit [of example_db 10 1 3 False] example_tweets
  have "ordered False
     [\<lparr>tweet_id = 3, author_id = 2, body = ''c'', fake_time = None\<rparr>,
      \<lparr>tweet_id = 2, author_id = 2, body = ''b'', fake_time = Some 20\<rparr>,
      \<lparr>tweet_id = 5, author_id = 2, body = ''e'', fake_time = Some 10\<rparr>]"
    by blast
  moreover from ordering_and_limit [of example_db 10 1 1 False] example_newest_tweet
  have "first_rows False 1 (tweets example_db)
     [\<lparr>tweet_id = 3, author_id = 2, body = ''c'', fake_time = None\<rparr>]"
    by blast
  moreover have "\<not> first_rows False 1 (tweets example_db)
     [\<lparr>tweet_id = 1, author_id = 2, body = ''a'', fake_time = Some 10\<rparr>]"
    by (simp add: first_rows_def leftover_def example_db_def comes_before_def
        fake_time_less_def)
  moreover have "valid_limit 3" and invalid: "\<not> valid_limit (- 1)"
    by (simp_all add: valid_limit_def)
  moreover from ordering_and_limit [of example_db 10 1 "- 1" False] invalid
  have "read_tweets example_db (- 1) False = Inl DBAPIError"
    by blast
  ultimately show ?thesis
    using example_timeline example_tweets example_newest_tweet by simp
qed









lemma example_user_tweets:
  "read_user_tweets example_db 2 3 =
     Inr [\<lparr>tweet_id = 3, author_id = 2, body = ''c'', fake_time = None\<rparr>,
          \<lparr>tweet_id = 2, author_id = 2, body = ''b'', fake_time = Some 20\<rparr>,
          \<lparr>tweet_id = 5, author_id = 2, body = ''e'', fake_time = Some 10\<rparr>]"
  by (simp add: read_user_tweets_def select_user_def example_db_def order_by_def order_key_def limit_clause_def)

lemma example_select_bob:
  "select_user example_db 2 = [\<lparr>user_id = 2, user_name = ''bob'', display_name = ''Bob''\<rparr>]"
  by (simp add: select_user_def example_db_def)

lemma example_user_tweets_newest:
  "read_user_tweets example_db 2 1 =
     Inr [\<lparr>tweet_id = 3, author_id = 2, body = ''c'', fake_time = None\<rparr>]"
  by (simp add: read_user_tweets_def select_user_def example_db_def order_by_def order_key_def
      limit_clause_def)

text \<open>
  C9. For an existing user, the route of the user's tweets applies no time filter: it
  returns tweets of that user only, in descending (fake time, identifier) order whatever
  their fake times are (null or far in the future), truncated to the limit: the first
  \<open>limit\<close> of the user's tweets in that order, and all of them when the limit allows. The
  route has no parameter for the direction. It returns rows for exactly the limits the
  database accepts.
\<close>

theorem user_tweets_unfiltered:
  assumes "select_user db uid = [user]"
  shows "(\<forall>ts. read_user_tweets db uid limit = Inr ts \<longrightarrow>
      first_rows False limit (filter (\<lambda>t. author_id t = uid) (tweets db)) ts \<and>
      ordered False ts \<and> ties_by_tweet_id False ts \<and>
      set ts \<subseteq> {t \<in> set (tweets db). author_id t = uid} \<and>
      int (length ts) \<le> limit \<and>
      length ts = min (nat limit) (length (filter (\<lambda>t. author_id t = uid) (tweets db))) \<and>
      (int (length (tweets db)) \<le> limit \<longrightarrow>
         set ts = {t \<in> set (tweets db). author_id t = uid})) \<and>
    (valid_limit limit \<longrightarrow> (\<exists>ts. read_user_tweets db uid limit = Inr ts)) \<and>
    (\<not> valid_limit limit \<longrightarrow> read_user_tweets db uid limit = Inl DBAPIError)"
proof -
  let ?rows = "filter (\<lambda>t. author_id t = uid) (tweets db)"
  from assms have r: "read_user_tweets db uid limit = limit_clause limit (order_by False ?rows)"
    by (simp add: read_user_tweets_def)
  have "first_rows False limit ?rows ts \<and>
      ordered False ts \<and> ties_by_tweet_id False ts \<and>
      set ts \<subseteq> {t \<in> set (tweets db). author_id t = uid} \<and>
      int (length ts) \<le> limit \<and>
      length ts = min (nat limit) (length ?rows) \<and>
      (int (length (tweets db)) \<le> limit \<longrightarrow>
         set ts = {t \<in> set (tweets db). author_id t = uid})"
    if "read_user_tweets db uid limit = Inr ts" for ts
  proof -
    from that r have l: "limit_clause limit (order_by False ?rows) = Inr ts"
      by simp
    then have "0 \<le> limit"
      by (simp add: limit_clause_Inr valid_limit_def)
    have "length ?rows \<le> length (tweets db)"
      by (rule length_filter_le)
    then have "int (length (tweets db)) \<le> limit \<longrightarrow> int (length ?rows) \<le> limit"
      by linarith
    with limited_rows [OF l] ordered_ties [of False ts] limited_first_rows [OF l]
      \<open>0 \<le> limit\<close>
    show ?thesis
      by auto
  qed
  moreover have "valid_limit limit \<longrightarrow> (\<exists>ts. read_user_tweets db uid limit = Inr ts)"
    by (simp add: r limit_clause_valid)
  moreover have "\<not> valid_limit limit \<longrightarrow> read_user_tweets db uid limit = Inl DBAPIError"
    by (simp add: r limit_clause_invalid)
  ultimately show ?thesis
    by blast
qed

theorem user_tweets_unfiltered_witness:
  "select_user example_db 2 = [\<lparr>user_id = 2, user_name = ''bob'', display_name = ''Bob''\<rparr>] \<and>
   read_user_tweets example_db 2 3 =
     Inr [\<lparr>tweet_id = 3, author_id = 2, body = ''c'', fake_time = None\<rparr>,
          \<lparr>tweet_id = 2, author_id = 2, body = ''b'', fake_time = Some 20\<rparr>,
          \<lparr>tweet_id = 5, author_id = 2, body = ''e'', fake_time = Some 10\<rparr>] \<and>
   ordered False
     [\<lparr>tweet_id = 3, author_id = 2, body = ''c'', fake_time = None\<rparr>,
      \<lparr>tweet_id = 2, author_id = 2, body = ''b'', fake_time = Some 20\<rparr>,
      \<lparr>tweet_id = 5, author_id = 2, body = ''e'', fake_time = Some 10\<rparr>] \<and>
   read_user_tweets example_db 2 1 =
     Inr [\<lparr>tweet_id = 3, author_id = 2, body = ''c'', fake_time = None\<rparr>] \<and>
   first_rows False 1 (filter (\<lambda>t. author_id t = 2) (tweets example_db))
     [\<lparr>tweet_id = 3, author_id = 2, body = ''c'', fake_time = None\<rparr>] \<and>
   \<not> first_rows False 1 (filter (\<lambda>t. author_id t = 2) (tweets example_db))
     [\<lparr>tweet_id = 1, author_id = 2, body = ''a'', fake_time = Some 10\<rparr>] \<and>
   valid_limit 3"
proof -
  from user_tweets_unfiltered [OF example_select_bob, of 3] example_user_tweets
  have "ordered False
     [\<lparr>tweet_id = 3, author_id = 2, body = ''c'', fake_time = None\<rparr>,
      \<lparr>tweet_id = 2, author_id = 2, body = ''b'', fake_time = Some 20\<rparr>,
      \<lparr>tweet_id = 5, author_id = 2, body = ''e'', fake_time = Some 10\<rparr>]"
    by blast
  moreover from user_tweets_unfiltered [OF example_select_bob, of 1] example_user_tweets_newest
  have "first_rows False 1 (filter (\<lambda>t. author_id t = 2) (tweets example_db))
     [\<lparr>tweet_id = 3, author_id = 2, body = ''c'', fake_time = None\<rparr>]"
    by blast
  moreover have "\<not> first_rows False 1 (filter (\<lambda>t. author_id t = 2) (tweets example_db))
     [\<lparr>tweet_id = 1, author_id = 2, body = ''a'', fake_time = Some 10\<rparr>]"
    by (simp add: first_rows_def leftover_def example_db_def comes_before_def
        fake_time_less_def)
  moreover have "valid_limit 3"
    by (simp add: valid_limit_def)
  ultimately show ?thesis
    using example_select_bob example_user_tweets example_user_tweets_newest by simp
qed

subsection \<open>User deletion\<close>

lemma filter_fresh: "i \<notin> f ` set xs \<Longrightarrow> filter (\<lambda>x. f x = i) xs = []"
  by (induction xs) auto

text \<open>
  With unique primary keys, selecting by the identifier of a stored user gives that row
  and no other: an existing user is one for which the select returns a single row.
\<close>

lemma filter_key_distinct:
  "distinct (map f xs) \<Longrightarrow> x \<in> set xs \<Longrightarrow> filter (\<lambda>y. f y = f x) xs = [x]"
proof (induction xs)
  case Nil
  then show ?case by simp
next
  case (Cons a xs)
  show ?case
  proof (cases "a = x")
    case True
    with Cons.prems(1) have "f x \<notin> f ` set xs"
      by simp
    then have "filter (\<lambda>y. f y = f x) xs = []"
      by (rule filter_fresh)
    with True show ?thesis
      by simp
  next
    case False
    with Cons.prems have "x \<in> set xs" and "distinct (map f xs)" and "f a \<noteq> f x"
      by auto
    with Cons.IH show ?thesis
      by simp
  qed
qed

lemma select_user_existing:
  "unique_keys db \<Longrightarrow> user \<in> set (users db) \<Longrightarrow> select_user db (user_id user) = [user]"
  by (simp add: unique_keys_def select_user_def filter_key_distinct)

lemma read_user_missing:
  "select_user db uid = [] \<Longrightarrow>
   read_user db uid = Inl (HTTPException 404 (''User '' @ str_int uid @ '' not found''))"
  by (simp add: read_user_def)

lemma select_user_single: "select_user db uid = [user] \<Longrightarrow> user_id user = uid"
proof -
  assume "select_user db uid = [user]"
  then have "user \<in> set (filter (\<lambda>u. user_id u = uid) (users db))"
    by (simp add: select_user_def)
  then show ?thesis
    by simp
qed

lemma delete_statements:
  "delete_row on_delete user (delete_followed uid (delete_following uid (delete_tweets uid db))) =
     cascade_deleted on_delete uid db" if "user_id user = uid"
  using that
  by (simp add: delete_row_def delete_followed_def delete_following_def delete_tweets_def
      cascade_deleted_def conj_commute)

lemma delete_user_existing:
  assumes "select_user db uid = [user]"
  shows "delete_user fails on_delete db uid =
    (if fails 0 \<or> fails 1 \<or> fails 2 \<or> fails 3 \<or> fails 4 \<or> fails 5
     then (Inl DBAPIError, db)
     else (Inr (), cascade_deleted on_delete uid db))"
  using assms select_user_single [OF assms]
  by (simp add: delete_user_def new_session_def execute_def commit_def session_exit_def
      delete_statements Let_def)

lemma delete_user_missing:
  assumes "select_user db uid = []"
  shows "delete_user fails on_delete db uid =
    (if fails 0 then (Inl DBAPIError, db)
     else (Inl (HTTPException 404 (''User '' @ str_int uid @ '' not found'')), db))"
  using assms
  by (simp add: delete_user_def new_session_def session_exit_def Let_def)

lemma delete_user_several:
  assumes "select_user db uid = x # y # zs"
  shows "delete_user fails on_delete db uid =
    (if fails 0 then (Inl DBAPIError, db) else (Inl MultipleResultsFound, db))"
  using assms
  by (simp add: delete_user_def new_session_def session_exit_def Let_def)

lemma delete_user_succeeded:
  assumes "delete_user fails on_delete db uid = (Inr (), db')"
  shows "db' = cascade_deleted on_delete uid db"
proof (cases "select_user db uid")
  case Nil
  with assms show ?thesis
    by (simp add: delete_user_missing split: if_splits)
next
  case (Cons x rest)
  show ?thesis
  proof (cases rest)
    case Nil
    with Cons have "select_user db uid = [x]"
      by simp
    with assms show ?thesis
      by (simp add: delete_user_existing split: if_splits)
  next
    case (Cons y zs)
    with \<open>select_user db uid = x # rest\<close> have "select_user db uid = x # y # zs"
      by simp
    with assms show ?thesis
      by (simp add: delete_user_several split: if_splits)
  qed
qed

lemma select_user_cascade_deleted: "select_user (cascade_deleted on_delete uid db) uid = []"
  by (simp add: select_user_def cascade_deleted_def filter_empty_conv)

lemma foreign_keys_cascade_deleted:
  "foreign_keys db \<Longrightarrow> foreign_keys (cascade_deleted on_delete uid db)"
  by (fastforce simp: foreign_keys_def cascade_deleted_def)


lemma example_cascade: "cascade_deleted delete_bio 2 example_db = example_deleted"
  by (simp add: cascade_deleted_def delete_bio_def example_db_def example_deleted_def)

lemma example_delete_bob:
  "delete_user (\<lambda>k. False) delete_bio example_db 2 = (Inr (), example_deleted)"
  by (simp add: delete_user_existing [OF example_select_bob] example_cascade)

lemma example_select_nobody: "select_user example_db 9 = []"
  by (simp add: select_user_def example_db_def)

lemma str_int_9: "str_int 9 = ''9''"
  by (simp add: str_int_def str_nat.simps)

text \<open>
  C2. The deletion of a user is atomic. Whatever round trips to the database fail, the
  route leaves behind either the database it found, with an error, or the database with
  all four deletions applied (the user's tweets, the edges where the user follows, the
  edges where the user is followed, the user row): never a part of the cascade. For an
  existing user and no failure it is the whole cascade. The committed database, which is
  all that another session sees, changes in the one commit at the end only.
\<close>

theorem delete_user_atomic:
  "((\<exists>e. delete_user fails on_delete db uid = (Inl e, db)) \<or>
    delete_user fails on_delete db uid = (Inr (), cascade_deleted on_delete uid db)) \<and>
   ((\<exists>user. select_user db uid = [user]) \<and> (\<forall>k < 6. \<not> fails k) \<longrightarrow>
    delete_user fails on_delete db uid = (Inr (), cascade_deleted on_delete uid db))"
proof -
  have "(\<exists>e. delete_user fails on_delete db uid = (Inl e, db)) \<or>
    delete_user fails on_delete db uid = (Inr (), cascade_deleted on_delete uid db)"
  proof (cases "select_user db uid")
    case Nil
    then show ?thesis
      by (simp add: delete_user_missing)
  next
    case (Cons x rest)
    show ?thesis
    proof (cases rest)
      case Nil
      with Cons have "select_user db uid = [x]"
        by simp
      then show ?thesis
        by (simp add: delete_user_existing)
    next
      case (Cons y zs)
      with \<open>select_user db uid = x # rest\<close> have "select_user db uid = x # y # zs"
        by simp
      then show ?thesis
        by (simp add: delete_user_several)
    qed
  qed
  moreover have "delete_user fails on_delete db uid = (Inr (), cascade_deleted on_delete uid db)"
    if "select_user db uid = [user]" and "\<forall>k < 6. \<not> fails k" for user
  proof -
    from that(2) have "\<not> (fails 0 \<or> fails 1 \<or> fails 2 \<or> fails 3 \<or> fails 4 \<or> fails 5)"
      by simp
    with delete_user_existing [OF that(1)] show ?thesis
      by simp
  qed
  ultimately show ?thesis
    by blast
qed

theorem delete_user_atomic_witness:
  "select_user example_db 2 = [\<lparr>user_id = 2, user_name = ''bob'', display_name = ''Bob''\<rparr>] \<and>
   delete_user (\<lambda>k. False) delete_bio example_db 2 = (Inr (), example_deleted) \<and>
   delete_user (\<lambda>k. k = 3) delete_bio example_db 2 = (Inl DBAPIError, example_db) \<and>
   example_deleted \<noteq> example_db"
proof -
  have "delete_user (\<lambda>k. False) delete_bio example_db 2 = (Inr (), example_deleted)"
    using delete_user_atomic [of "\<lambda>k. False" delete_bio example_db 2] example_select_bob
    by (simp add: example_cascade)
  moreover have "delete_user (\<lambda>k. k = 3) delete_bio example_db 2 = (Inl DBAPIError, example_db)"
    by (simp add: delete_user_existing [OF example_select_bob])
  moreover have "example_deleted \<noteq> example_db"
    by (simp add: example_deleted_def example_db_def)
  ultimately show ?thesis
    using example_select_bob by simp
qed

text \<open>
  C10. For a user id that no row has, the deletion route raises the HTTP error 404
  (\<^verbatim>\<open>User <id> not found\<close>) and leaves the database as it was: the existence check comes
  before the four deletions. (When the \<^verbatim>\<open>select\<close> of the check itself fails the error is
  the database's, and the database is unchanged as well.)
\<close>

theorem delete_unknown_user:
  assumes "select_user db uid = []"
  shows "snd (delete_user fails on_delete db uid) = db \<and>
    (\<not> fails 0 \<longrightarrow>
       fst (delete_user fails on_delete db uid) =
         Inl (HTTPException 404 (''User '' @ str_int uid @ '' not found'')) \<and>
       status_code (fst (delete_user fails on_delete db uid)) = 404)"
  by (simp add: delete_user_missing [OF assms])

theorem delete_unknown_user_witness:
  "select_user example_db 9 = [] \<and>
   delete_user (\<lambda>k. False) delete_bio example_db 9 =
     (Inl (HTTPException 404 ''User 9 not found''), example_db)"
proof -
  from delete_unknown_user [OF example_select_nobody, of "\<lambda>k. False" delete_bio]
  have "snd (delete_user (\<lambda>k. False) delete_bio example_db 9) = example_db \<and>
    fst (delete_user (\<lambda>k. False) delete_bio example_db 9) =
      Inl (HTTPException 404 ''User 9 not found'')"
    by (simp add: str_int_9)
  then have "delete_user (\<lambda>k. False) delete_bio example_db 9 =
     (Inl (HTTPException 404 ''User 9 not found''), example_db)"
    by (simp add: prod_eq_iff)
  with example_select_nobody show ?thesis
    by simp
qed

text \<open>
  X1. After a successful deletion of a user no tweet of the user, no follower edge with the
  user at either end and no user row is left, and foreign keys that held before still
  hold (no dangling reference); the posts of that id are the empty list (for a limit the
  database accepts) and \<^verbatim>\<open>GET /users/{user_id}/\<close> answers 404.
\<close>

theorem delete_user_leaves_no_reference:
  assumes "delete_user fails on_delete db uid = (Inr (), db')"
  shows "(\<forall>t \<in> set (tweets db'). author_id t \<noteq> uid) \<and>
    (\<forall>e \<in> set (followers_association db'). fst e \<noteq> uid \<and> snd e \<noteq> uid) \<and>
    (\<forall>u \<in> set (users db'). user_id u \<noteq> uid) \<and>
    (foreign_keys db \<longrightarrow> foreign_keys db') \<and>
    (\<forall>cutoff limit ascending. valid_limit limit \<longrightarrow>
       read_posts db' cutoff uid limit ascending = Inr []) \<and>
    read_user db' uid = Inl (HTTPException 404 (''User '' @ str_int uid @ '' not found''))"
proof -
  note db' = delete_user_succeeded [OF assms]
  have "foreign_keys db \<longrightarrow> foreign_keys db'"
    by (simp add: db' foreign_keys_cascade_deleted)
  moreover
  have "posts_where db' cutoff uid = []" for cutoff
    by (simp add: db' posts_where_def cascade_deleted_def filter_empty_conv)
  then have "\<forall>cutoff limit ascending. valid_limit limit \<longrightarrow>
       read_posts db' cutoff uid limit ascending = Inr []"
    by (simp add: read_posts_def order_by_def limit_clause_valid)
  moreover have "read_user db' uid =
      Inl (HTTPException 404 (''User '' @ str_int uid @ '' not found''))"
    by (simp add: db' read_user_missing select_user_cascade_deleted)
  moreover have "(\<forall>t \<in> set (tweets db'). author_id t \<noteq> uid) \<and>
    (\<forall>e \<in> set (followers_association db'). fst e \<noteq> uid \<and> snd e \<noteq> uid) \<and>
    (\<forall>u \<in> set (users db'). user_id u \<noteq> uid)"
    by (simp add: db' cascade_deleted_def)
  ultimately show ?thesis
    by blast
qed

theorem delete_user_leaves_no_reference_witness:
  "delete_user (\<lambda>k. False) delete_bio example_db 2 = (Inr (), example_deleted) \<and>
   valid_limit 10 \<and>
   read_posts example_deleted 30 2 10 False = Inr [] \<and>
   read_user example_deleted 2 = Inl (HTTPException 404 ''User 2 not found'')"
proof -
  have limit: "valid_limit 10"
    by (simp add: valid_limit_def)
  with delete_user_leaves_no_reference [OF example_delete_bob]
  have "read_posts example_deleted 30 2 10 False = Inr [] \<and>
    read_user example_deleted 2 = Inl (HTTPException 404 (''User '' @ str_int 2 @ '' not found''))"
    by blast
  then show ?thesis
    using example_delete_bob limit by (simp add: str_int_def str_nat.simps)
qed

subsection \<open>The profile of a user that does not exist\<close>

text \<open>
  C1. For a user id that no row has, the profile route does not signal the not-found
  condition that the other routes raise. Whatever \<^verbatim>\<open>FastAPI.HTTPException\<close> resolves to,
  no \<^verbatim>\<open>HTTPException\<close> is raised: the lookup raises \<^verbatim>\<open>AttributeError\<close>, or the exception
  object is returned as the value of the route and fails the validation of the response.
  The status is 500 either way, where \<^verbatim>\<open>GET /users/{user_id}/\<close> answers 404 for the same id.
\<close>

theorem profile_of_unknown_user:
  assumes "select_user db uid = []"
  shows "(\<forall>code detail. read_profile attr db uid \<noteq> Inl (HTTPException code detail)) \<and>
    profile_status_code (read_profile attr db uid) = 500 \<and>
    status_code (read_user db uid) = 404"
  using assms
  by (cases attr) (simp_all add: read_profile_def read_user_def)

theorem profile_of_unknown_user_witness:
  "select_user example_db 9 = [] \<and>
   read_profile None example_db 9 = Inl (AttributeError ''HTTPException'') \<and>
   profile_status_code (read_profile None example_db 9) = 500 \<and>
   read_profile (Some HTTPException) example_db 9 =
     Inr (Returned_exception (HTTPException 404 ''User not found'')) \<and>
   profile_status_code (read_profile (Some HTTPException) example_db 9) = 500"
proof -
  have "read_profile None example_db 9 = Inl (AttributeError ''HTTPException'')"
    and "read_profile (Some HTTPException) example_db 9 =
     Inr (Returned_exception (HTTPException 404 ''User not found''))"
    by (simp_all add: read_profile_def example_select_nobody)
  with profile_of_unknown_user [OF example_select_nobody, of None]
    profile_of_unknown_user [OF example_select_nobody, of "Some HTTPException"]
    example_select_nobody
  show ?thesis
    by simp
qed

text \<open>
  C3. After a successful deletion the user row is gone, and the profile query of that id
  runs into the same branch: it answers 500 and raises no \<^verbatim>\<open>HTTPException\<close>, so it does
  not signal not-found. (The rest of the claim, no row left that refers to the user and
  empty posts, holds: see X1.)
\<close>

theorem profile_after_delete_user:
  assumes "delete_user fails on_delete db uid = (Inr (), db')"
  shows "select_user db' uid = [] \<and>
    (\<forall>code detail. read_profile attr db' uid \<noteq> Inl (HTTPException code detail)) \<and>
    profile_status_code (read_profile attr db' uid) = 500"
proof -
  have none: "select_user db' uid = []"
    by (simp add: delete_user_succeeded [OF assms] select_user_cascade_deleted)
  then show ?thesis
    by (cases attr) (simp_all add: read_profile_def)
qed

theorem profile_after_delete_user_witness:
  "delete_user (\<lambda>k. False) delete_bio example_db 2 = (Inr (), example_deleted) \<and>
   select_user example_deleted 2 = [] \<and>
   read_profile None example_deleted 2 = Inl (AttributeError ''HTTPException'') \<and>
   profile_status_code (read_profile None example_deleted 2) = 500"
proof -
  from profile_after_delete_user [OF example_delete_bob, of None]
  have "select_user example_deleted 2 = [] \<and>
    profile_status_code (read_profile None example_deleted 2) = 500"
    by blast
  moreover from this have "read_profile None example_deleted 2 = Inl (AttributeError ''HTTPException'')"
    by (simp add: read_profile_def)
  ultimately show ?thesis
    using example_delete_bob by simp
qed

subsection \<open>Creation\<close>

lemma create_user_cases:
  "create_user payload db =
     (let user = \<lparr>user_id = user_id_seq db, user_name = new_user_name payload,
                  display_name = new_display_name payload\<rparr>
      in if user_id_seq db \<in> user_id ` set (users db) \<or>
            new_user_name payload \<in> user_name ` set (users db)
         then (Inl IntegrityError, db\<lparr>user_id_seq := user_id_seq db + 1\<rparr>)
         else (Inr user, db\<lparr>user_id_seq := user_id_seq db + 1, users := users db @ [user]\<rparr>))"
  by (simp add: create_user_def Let_def refresh_user_def select_user_def filter_fresh)

lemma create_tweet_cases:
  "create_tweet payload db =
     (let tweet = \<lparr>tweet_id = tweet_id_seq db, author_id = new_author_id payload,
                   body = new_body payload, fake_time = new_fake_time payload\<rparr>
      in if tweet_id_seq db \<in> tweet_id ` set (tweets db) \<or>
            new_author_id payload \<notin> user_id ` set (users db)
         then (Inl IntegrityError, db\<lparr>tweet_id_seq := tweet_id_seq db + 1\<rparr>)
         else (Inr tweet, db\<lparr>tweet_id_seq := tweet_id_seq db + 1, tweets := tweets db @ [tweet]\<rparr>))"
  by (simp add: create_tweet_def Let_def refresh_tweet_def filter_fresh)

lemma created_user:
  assumes "create_user payload db = (Inr user, db')"
  shows "user_id user = user_id_seq db \<and> user_name user = new_user_name payload \<and>
    display_name user = new_display_name payload \<and>
    users db' = users db @ [user] \<and> read_user db' (user_id user) = Inr user"
proof -
  from assms have fresh: "user_id_seq db \<notin> user_id ` set (users db)"
    and user: "user = \<lparr>user_id = user_id_seq db, user_name = new_user_name payload,
                  display_name = new_display_name payload\<rparr>"
    and db': "db' = db\<lparr>user_id_seq := user_id_seq db + 1, users := users db @ [user]\<rparr>"
    by (auto simp: create_user_cases Let_def split: if_splits)
  from fresh have "select_user db' (user_id user) = [user]"
    by (simp add: select_user_def db' user filter_fresh)
  then have "read_user db' (user_id user) = Inr user"
    by (simp add: read_user_def)
  then show ?thesis
    by (simp add: user db')
qed

lemma created_tweet:
  assumes "create_tweet payload db = (Inr tweet, db')"
  shows "tweet_id tweet = tweet_id_seq db \<and> author_id tweet = new_author_id payload \<and>
    body tweet = new_body payload \<and> fake_time tweet = new_fake_time payload \<and>
    tweets db' = tweets db @ [tweet] \<and>
    filter (\<lambda>t. tweet_id t = tweet_id tweet) (tweets db') = [tweet] \<and>
    refresh_tweet db' tweet = Inr tweet"
proof -
  from assms have fresh: "tweet_id_seq db \<notin> tweet_id ` set (tweets db)"
    and tweet: "tweet = \<lparr>tweet_id = tweet_id_seq db, author_id = new_author_id payload,
                   body = new_body payload, fake_time = new_fake_time payload\<rparr>"
    and db': "db' = db\<lparr>tweet_id_seq := tweet_id_seq db + 1, tweets := tweets db @ [tweet]\<rparr>"
    by (auto simp: create_tweet_cases Let_def split: if_splits)
  from fresh have "filter (\<lambda>t. tweet_id t = tweet_id tweet) (tweets db') = [tweet]"
    by (simp add: db' tweet filter_fresh)
  then show ?thesis
    by (simp add: refresh_tweet_def) (simp add: tweet db')
qed

lemma example_create_user:
  "create_user \<lparr>new_user_name = ''dave'', new_display_name = ''Dave''\<rparr> example_db =
     (Inr example_user,
      example_db\<lparr>user_id_seq := 5, users := users example_db @ [example_user]\<rparr>)"
  by (simp add: create_user_cases Let_def example_user_def example_db_def)

lemma example_create_tweet:
  "create_tweet \<lparr>new_author_id = 1, new_body = ''hi'', new_fake_time = None\<rparr> example_db =
     (Inr example_tweet,
      example_db\<lparr>tweet_id_seq := 7, tweets := tweets example_db @ [example_tweet]\<rparr>)"
  by (simp add: create_tweet_cases Let_def example_tweet_def example_db_def)

text \<open>
  C8. A creation that returns has persisted the new row and returns it with the identifier
  the sequence generated; reading the user by that identifier (\<^verbatim>\<open>GET /users/{user_id}/\<close>)
  returns the same row, and selecting the tweet by its identifier (the \<^verbatim>\<open>refresh\<close> of the
  route; there is no route that reads one tweet) returns exactly the created tweet. A
  creation returns whenever the constraints of the schema allow the insert: the sequence
  is ahead of the stored identifiers, the user name is new, the author of the tweet is a
  user.
\<close>

theorem create_then_fetch:
  "(\<forall>user db'. create_user payload db = (Inr user, db') \<longrightarrow>
      user_id user = user_id_seq db \<and> user_name user = new_user_name payload \<and>
      display_name user = new_display_name payload \<and>
      users db' = users db @ [user] \<and> read_user db' (user_id user) = Inr user) \<and>
   (\<forall>tweet db'. create_tweet post db = (Inr tweet, db') \<longrightarrow>
      tweet_id tweet = tweet_id_seq db \<and> author_id tweet = new_author_id post \<and>
      body tweet = new_body post \<and> fake_time tweet = new_fake_time post \<and>
      tweets db' = tweets db @ [tweet] \<and>
      filter (\<lambda>t. tweet_id t = tweet_id tweet) (tweets db') = [tweet] \<and>
      refresh_tweet db' tweet = Inr tweet) \<and>
   (sequences_ahead db \<and> new_user_name payload \<notin> user_name ` set (users db) \<longrightarrow>
      (\<exists>user db'. create_user payload db = (Inr user, db'))) \<and>
   (sequences_ahead db \<and> new_author_id post \<in> user_id ` set (users db) \<longrightarrow>
      (\<exists>tweet db'. create_tweet post db = (Inr tweet, db')))"
proof -
  have "\<exists>user db'. create_user payload db = (Inr user, db')"
    if "sequences_ahead db" and "new_user_name payload \<notin> user_name ` set (users db)"
  proof -
    from that(1) have "user_id_seq db \<notin> user_id ` set (users db)"
      by (auto simp: sequences_ahead_def)
    with that(2) show ?thesis
      by (simp add: create_user_cases Let_def)
  qed
  moreover have "\<exists>tweet db'. create_tweet post db = (Inr tweet, db')"
    if "sequences_ahead db" and "new_author_id post \<in> user_id ` set (users db)"
  proof -
    from that(1) have "tweet_id_seq db \<notin> tweet_id ` set (tweets db)"
      by (auto simp: sequences_ahead_def)
    with that(2) show ?thesis
      by (simp add: create_tweet_cases Let_def)
  qed
  ultimately show ?thesis
    using created_user [of payload db] created_tweet [of post db] by blast
qed

theorem create_then_fetch_witness:
  "create_user \<lparr>new_user_name = ''dave'', new_display_name = ''Dave''\<rparr> example_db =
     (Inr example_user,
      example_db\<lparr>user_id_seq := 5, users := users example_db @ [example_user]\<rparr>) \<and>
   read_user (example_db\<lparr>user_id_seq := 5, users := users example_db @ [example_user]\<rparr>) 4
     = Inr example_user \<and>
   create_tweet \<lparr>new_author_id = 1, new_body = ''hi'', new_fake_time = None\<rparr> example_db =
     (Inr example_tweet,
      example_db\<lparr>tweet_id_seq := 7, tweets := tweets example_db @ [example_tweet]\<rparr>) \<and>
   refresh_tweet (example_db\<lparr>tweet_id_seq := 7, tweets := tweets example_db @ [example_tweet]\<rparr>)
     example_tweet = Inr example_tweet \<and>
   sequences_ahead example_db"
proof -
  from create_then_fetch
    [of "\<lparr>new_user_name = ''dave'', new_display_name = ''Dave''\<rparr>" example_db
      "\<lparr>new_author_id = 1, new_body = ''hi'', new_fake_time = None\<rparr>"]
    example_create_user example_create_tweet
  have "read_user (example_db\<lparr>user_id_seq := 5, users := users example_db @ [example_user]\<rparr>)
      (user_id example_user) = Inr example_user \<and>
    refresh_tweet (example_db\<lparr>tweet_id_seq := 7, tweets := tweets example_db @ [example_tweet]\<rparr>)
     example_tweet = Inr example_tweet"
    by blast
  moreover have "sequences_ahead example_db"
    by (simp add: sequences_ahead_def example_db_def)
  ultimately show ?thesis
    using example_create_user example_create_tweet by (simp add: example_user_def)
qed

end
